theory Spec2Isabelle
  imports Complex_Main
begin

section \<open>JavaScript string operations used by the chat hook\<close>

text \<open>
  Strings are lists of characters. Case conversion and trimming are modelled on the ASCII
  range: \<open>toUpperCase\<close> and \<open>toLowerCase\<close> change the letters a-z and A-Z only and
  \<open>trim\<close> removes the ASCII white space (tab, line feed, vertical tab, form feed,
  carriage return, space).
\<close>

definition startsWith :: "string \<Rightarrow> string \<Rightarrow> bool" where
  "startsWith s p = (take (length p) s = p)"

text \<open>\<open>s.split(c)\<close> for a one-character separator; the result is never empty.\<close>

fun split_chr :: "char \<Rightarrow> string \<Rightarrow> string list" where
  "split_chr c [] = [[]]"
| "split_chr c (x # xs) =
     (if x = c then [] # split_chr c xs
      else (case split_chr c xs of
              [] \<Rightarrow> [[x]]
            | piece # pieces \<Rightarrow> (x # piece) # pieces))"

text \<open>\<open>s.replace(pat, rep)\<close> with a string pattern: the first occurrence only.\<close>

fun replace_first :: "string \<Rightarrow> string \<Rightarrow> string \<Rightarrow> string" where
  "replace_first pat rep [] = (if pat = [] then rep else [])"
| "replace_first pat rep (x # xs) =
     (if startsWith (x # xs) pat then rep @ drop (length pat) (x # xs)
      else x # replace_first pat rep xs)"

fun join :: "string \<Rightarrow> string list \<Rightarrow> string" where
  "join sep [] = []"
| "join sep [w] = w"
| "join sep (w # v # ws) = w @ sep @ join sep (v # ws)"

definition toUpperChar :: "char \<Rightarrow> char" where
  "toUpperChar c =
     (let n = (of_char c :: nat) in if 97 \<le> n \<and> n \<le> 122 then char_of (n - 32) else c)"

definition toLowerChar :: "char \<Rightarrow> char" where
  "toLowerChar c =
     (let n = (of_char c :: nat) in if 65 \<le> n \<and> n \<le> 90 then char_of (n + 32) else c)"

definition toUpperCase :: "string \<Rightarrow> string" where
  "toUpperCase s = map toUpperChar s"

definition toLowerCase :: "string \<Rightarrow> string" where
  "toLowerCase s = map toLowerChar s"

definition isWhiteSpace :: "char \<Rightarrow> bool" where
  "isWhiteSpace c = (let n = (of_char c :: nat) in (9 \<le> n \<and> n \<le> 13) \<or> n = 32)"

definition trim :: "string \<Rightarrow> string" where
  "trim s = rev (dropWhile isWhiteSpace (rev (dropWhile isWhiteSpace s)))"

text \<open>\<open>word.charAt(0).toUpperCase() + word.slice(1).toLowerCase()\<close>\<close>

definition capitalize :: "string \<Rightarrow> string" where
  "capitalize word = toUpperCase (take 1 word) @ toLowerCase (drop 1 word)"

text \<open>Decimal rendering of a number in a template string.\<close>

fun string_of_nat :: "nat \<Rightarrow> string" where
  "string_of_nat n =
     (if n < 10 then [char_of (48 + n)]
      else string_of_nat (n div 10) @ [char_of (48 + n mod 10)])"

declare string_of_nat.simps [simp del]

section \<open>The preference-message formatter\<close>

text \<open>
  The two lookup tables of \<open>formatPreferenceMessage\<close>, with the keys and values of the
  source. A lookup reads the table's own keys.
\<close>

definition formatMap :: "string \<Rightarrow> string option" where
  "formatMap = map_of
     [(''tone'', ''Preferred Tone of Voice''),
      (''news_topics'', ''News Topic Interest''),
      (''language'', ''Language Preference''),
      (''region'', ''Region Preference''),
      (''depth'', ''Content Depth Preference''),
      (''source_type'', ''Source Type Preference''),
      (''interaction_style'', ''Interaction Style''),
      (''format'', ''Format Preference'')]"

definition specialCases :: "string \<Rightarrow> string option" where
  "specialCases = map_of
     [(''bullet_points'', ''Bullet Points''),
      (''numbered_list'', ''Numbered List''),
      (''q_and_a'', ''Q&A''),
      (''api'', ''API''),
      (''usa'', ''USA''),
      (''uk'', ''UK''),
      (''eu'', ''EU'')]"

definition formatValue :: "string \<Rightarrow> string" where
  "formatValue val =
     (if CHR '','' \<in> set val
      then join '', '' (map capitalize (map trim (split_chr CHR '','' val)))
      else (case specialCases (toLowerCase val) of
              Some special \<Rightarrow> special
            | None \<Rightarrow> join '' '' (map capitalize (split_chr CHR ''_'' val))))"

definition formatPreferenceMessage :: "string \<Rightarrow> string" where
  "formatPreferenceMessage message =
     (if \<not> startsWith message ''PREFERENCE_SELECTION:'' then message
      else (case split_chr CHR '':'' (replace_first ''PREFERENCE_SELECTION:'' '''' message) of
              [preferenceType, val] \<Rightarrow>
                (let formattedType =
                       (case formatMap preferenceType of
                          Some known \<Rightarrow> known
                        | None \<Rightarrow> join '' '' (map capitalize (split_chr CHR ''_'' preferenceType)));
                     formattedValue = formatValue val
                 in formattedType @ '': '' @ formattedValue)
            | _ \<Rightarrow> message))"

section \<open>Network-aware timeouts\<close>

record NetworkStatus =
  isOnline :: bool
  isSlowConnection :: bool
  connectionType :: string
  effectiveType :: string

datatype Operation = Api | Upload | Download | General

fun baseTimeouts :: "Operation \<Rightarrow> real" where
  "baseTimeouts Api = 30000"
| "baseTimeouts Upload = 120000"
| "baseTimeouts Download = 60000"
| "baseTimeouts General = 30000"

definition getRecommendedTimeout :: "NetworkStatus \<Rightarrow> Operation \<Rightarrow> real" where
  "getRecommendedTimeout networkStatus operation =
     (if \<not> isOnline networkStatus then 0
      else (let baseTimeout = baseTimeouts operation in
            if isSlowConnection networkStatus then baseTimeout * 2
            else if effectiveType networkStatus = ''slow-2g'' then baseTimeout * 3
            else if effectiveType networkStatus = ''2g'' then baseTimeout * 2
            else if effectiveType networkStatus = ''3g'' then baseTimeout * 1.5
            else baseTimeout))"

section \<open>Data model\<close>

datatype RoleType = User | Assistant | System
datatype ToneType = Formal | Casual | Enthusiastic
datatype FormatType = BulletPoints | Paragraphs
datatype InteractionStyleType = Concise | Detailed
datatype SelectionType = Single | Multiple

text \<open>Every preference is nullable (\<open>T | null\<close>): \<open>None\<close> is \<open>null\<close>.\<close>

record UserPreferences =
  tone :: "ToneType option"
  format :: "FormatType option"
  language :: "string option"
  interaction_style :: "InteractionStyleType option"
  topics :: "string list option"

record QuickReplyOption =
  option_label :: string
  option_value :: string

text \<open>
  An optional field (\<open>f?: T\<close>) is an \<open>option\<close>: \<open>None\<close> is the absent field
  (\<open>undefined\<close>). \<open>quick_reply_options\<close> is declared \<open>QuickReplyOption[] | null\<close>,
  so its present value is a list or \<open>Null\<close>.
\<close>

datatype 'a nullable = Null | Value 'a

record ChatMessage =
  role :: RoleType
  content :: string
  timestamp :: string
  quick_reply_options :: "QuickReplyOption list nullable option"
  is_preference_question :: "bool option"
  preference_type :: "string option"
  selection_type :: "SelectionType option"

text \<open>
  The \<open>message\<close> payload of a stream event. The handler reads each of its fields through
  \<open>?.\<close> and gives \<open>content\<close> and \<open>timestamp\<close> a default with \<open>??\<close>, so a received
  message may lack them: \<open>None\<close> is a field that is missing (or null) on the wire.
\<close>

record WireMessage =
  wire_content :: "string option"
  wire_timestamp :: "string option"
  wire_quick_reply_options :: "QuickReplyOption list nullable option"
  wire_is_preference_question :: "bool option"
  wire_preference_type :: "string option"
  wire_selection_type :: "SelectionType option"

text \<open>
  The parsed payload of a record, as the source declares it:
  \<open>{type: string; content?: string; message?: ChatMessage; preferences?: UserPreferences;
  error?: string}\<close>.
\<close>

record StreamEvent =
  ev_type :: string
  ev_content :: "string option"
  ev_message :: "WireMessage option"
  ev_preferences :: "UserPreferences option"
  ev_error :: "string option"

text \<open>
  \<open>JSON.parse\<close> belongs to the platform and is a parameter of the model. It throws a
  \<open>SyntaxError\<close> (with the engine's message), or returns the literal \<open>null\<close>, on which
  reading \<open>data.type\<close> throws a \<open>TypeError\<close>, or returns an event.
\<close>

datatype ParseResult = SyntaxError string | ParsedNull | Parsed StreamEvent

text \<open>
  A thrown value: an \<open>Error\<close> object (with whether it is an instance of \<open>SyntaxError\<close>,
  its \<open>name\<close> and its \<open>message\<close>) or anything that is not an instance of \<open>Error\<close>.
\<close>

datatype Thrown =
    ErrorObject bool (err_name: string) (err_message: string)
  | NonError

fun instanceofError :: "Thrown \<Rightarrow> bool" where
  "instanceofError (ErrorObject _ _ _) = True"
| "instanceofError NonError = False"

fun instanceofSyntaxError :: "Thrown \<Rightarrow> bool" where
  "instanceofSyntaxError (ErrorObject syntax _ _) = syntax"
| "instanceofSyntaxError NonError = False"

definition new_Error :: "string \<Rightarrow> Thrown" where
  "new_Error msg = ErrorObject False ''Error'' msg"

text \<open>\<open>err instanceof Error && err.name === "AbortError"\<close>\<close>

fun isAbortError :: "Thrown \<Rightarrow> bool" where
  "isAbortError (ErrorObject _ n _) = (n = ''AbortError'')"
| "isAbortError NonError = False"

text \<open>
  The response of \<open>fetch\<close>. The body is read by a reader whose successive \<open>read()\<close>
  calls are a finite list: a decoded text fragment or a rejection; after the last element
  the reader reports \<open>done\<close>. \<open>body = None\<close> is a response without a body.
\<close>

datatype ReadResult = ReadValue string | ReadRejects Thrown

record Response =
  ok :: bool
  status :: nat
  statusText :: string
  body :: "ReadResult list option"

datatype FetchResult = FetchRejects Thrown | FetchResolves Response

record ChatRequest =
  req_message :: string
  req_conversation_id :: string
  req_preferences :: UserPreferences

text \<open>What one call of \<open>sendMessage\<close> is given and what the outside world answers.\<close>

record Env =
  networkStatus :: NetworkStatus
  conversationId :: string
  preferences :: UserPreferences
  clock :: "nat \<Rightarrow> string"
  fetch_result :: FetchResult
  JSON_parse :: "string \<Rightarrow> ParseResult"
  null_type_error :: string

text \<open>The actions on the outside world, in the order they happen.\<close>

datatype Effect =
    AbortRequest
  | SetTimeout real
  | Fetch ChatRequest
  | ClearTimeout
  | PreferencesUpdate UserPreferences
  | ConsoleError Thrown

fun isFetch :: "Effect \<Rightarrow> bool" where
  "isFetch (Fetch _) = True"
| "isFetch _ = False"

text \<open>
  The state of the hook: the four React state cells, whether \<open>abortControllerRef.current\<close>
  holds a controller, the local variable \<open>accumulatedMessage\<close> of the running call, the
  effects so far and the number of \<open>new Date()\<close> calls so far. State updates apply in
  the order the code issues them.
\<close>

record Session =
  messages :: "ChatMessage list"
  streamingMessage :: "string option"
  isStreaming :: bool
  error :: "string option"
  abortControllerRef :: bool
  accumulatedMessage :: string
  effects :: "Effect list"
  clock_reads :: nat

datatype Completion = Normal | Throw Thrown

definition emit :: "Effect \<Rightarrow> Session \<Rightarrow> Session" where
  "emit e s = s\<lparr>effects := effects s @ [e]\<rparr>"

text \<open>\<open>new Date().toISOString()\<close>\<close>

definition now :: "Env \<Rightarrow> Session \<Rightarrow> string \<times> Session" where
  "now env s = (clock env (clock_reads s), s\<lparr>clock_reads := Suc (clock_reads s)\<rparr>)"

section \<open>Decoding the stream\<close>

text \<open>
  The body of the inner \<open>try\<close> once the payload is parsed: the dispatch on \<open>data.type\<close>.
  \<open>accumulatedMessage += data.content\<close> appends the text \<open>undefined\<close> when the event
  has no \<open>content\<close>. \<open>onPreferencesUpdate\<close> is recorded as an effect.
\<close>

definition assistantMessage_of :: "WireMessage option \<Rightarrow> string \<Rightarrow> ChatMessage" where
  "assistantMessage_of m stamp =
     \<lparr>role = Assistant,
      content = (case Option.bind m wire_content of Some c \<Rightarrow> c | None \<Rightarrow> []),
      timestamp = stamp,
      quick_reply_options = Option.bind m wire_quick_reply_options,
      is_preference_question = Option.bind m wire_is_preference_question,
      preference_type = Option.bind m wire_preference_type,
      selection_type = Option.bind m wire_selection_type\<rparr>"

definition updatePreferences :: "UserPreferences option \<Rightarrow> Session \<Rightarrow> Session" where
  "updatePreferences p s = (case p of Some prefs \<Rightarrow> emit (PreferencesUpdate prefs) s | None \<Rightarrow> s)"

definition handle_data :: "Env \<Rightarrow> ParseResult \<Rightarrow> Session \<Rightarrow> Completion \<times> Session" where
  "handle_data env parsed s =
     (case parsed of
        SyntaxError msg \<Rightarrow> (Throw (ErrorObject True ''SyntaxError'' msg), s)
      | ParsedNull \<Rightarrow> (Throw (ErrorObject False ''TypeError'' (null_type_error env)), s)
      | Parsed data \<Rightarrow>
          if ev_type data = ''chunk'' then
            (let acc = accumulatedMessage s @
                         (case ev_content data of Some c \<Rightarrow> c | None \<Rightarrow> ''undefined'')
             in (Normal, s\<lparr>accumulatedMessage := acc, streamingMessage := Some acc\<rparr>))
          else if ev_type data = ''complete_message'' then
            (let (stamp, s1) =
                   (case Option.bind (ev_message data) wire_timestamp of
                      Some t \<Rightarrow> (t, s)
                    | None \<Rightarrow> now env s);
                 assistantMessage = assistantMessage_of (ev_message data) stamp;
                 s2 = s1\<lparr>messages := messages s1 @ [assistantMessage], streamingMessage := None\<rparr>
             in (Normal, updatePreferences (ev_preferences data) s2))
          else if ev_type data = ''complete'' then
            (let (stamp, s1) = now env s;
                 assistantMessage =
                   \<lparr>role = Assistant, content = accumulatedMessage s1, timestamp = stamp,
                    quick_reply_options = None, is_preference_question = None,
                    preference_type = None, selection_type = None\<rparr>;
                 s2 = s1\<lparr>messages := messages s1 @ [assistantMessage], streamingMessage := None\<rparr>
             in (Normal, updatePreferences (ev_preferences data) s2))
          else if ev_type data = ''error'' then
            (Throw (new_Error (case ev_error data of Some e \<Rightarrow> e | None \<Rightarrow> ''Unknown error'')), s)
          else (Normal, s))"

text \<open>
  One iteration of \<open>for (const line of lines)\<close>: the prefix test, \<open>line.slice(6)\<close>, and
  the \<open>catch\<close> that swallows an instance of \<open>SyntaxError\<close> and rethrows the rest.
\<close>

definition handle_line :: "Env \<Rightarrow> string \<Rightarrow> Session \<Rightarrow> Completion \<times> Session" where
  "handle_line env line s =
     (if startsWith line ''data: '' then
        (case handle_data env (JSON_parse env (drop 6 line)) s of
           (Throw e, s') \<Rightarrow>
             if instanceofSyntaxError e then (Normal, s') else (Throw e, s')
         | (Normal, s') \<Rightarrow> (Normal, s'))
      else (Normal, s))"

fun handle_lines :: "Env \<Rightarrow> string list \<Rightarrow> Session \<Rightarrow> Completion \<times> Session" where
  "handle_lines env [] s = (Normal, s)"
| "handle_lines env (line # lines) s =
     (case handle_line env line s of
        (Normal, s') \<Rightarrow> handle_lines env lines s'
      | (Throw e, s') \<Rightarrow> (Throw e, s'))"

text \<open>
  The \<open>while (true)\<close> loop over \<open>reader.read()\<close>: the end of the list is \<open>done\<close>, a
  rejected read throws, a fragment is split at line feeds and its lines are handled in order.
\<close>

fun read_loop :: "Env \<Rightarrow> ReadResult list \<Rightarrow> Session \<Rightarrow> Completion \<times> Session" where
  "read_loop env [] s = (Normal, s)"
| "read_loop env (ReadRejects e # reads) s = (Throw e, s)"
| "read_loop env (ReadValue chunk # reads) s =
     (case handle_lines env (split_chr CHR ''\<newline>'' chunk) s of
        (Normal, s') \<Rightarrow> read_loop env reads s'
      | (Throw e, s') \<Rightarrow> (Throw e, s'))"

section \<open>sendMessage\<close>

definition INIT_CONVERSATION :: string where
  "INIT_CONVERSATION = ''__INIT_CONVERSATION__''"

definition offline_message :: string where
  "offline_message = ''You're offline. Please check your connection and try again.''"

text \<open>Lines 105 to 112: cancel an existing stream, then the three resets.\<close>

definition send_begin :: "Session \<Rightarrow> Session" where
  "send_begin s =
     (let s0 = (if abortControllerRef s then emit AbortRequest s else s)
      in s0\<lparr>isStreaming := True, error := None, streamingMessage := Some []\<rparr>)"

text \<open>Lines 114 to 123: the user message is added at once, unless this is the init message.\<close>

definition userMessage_of :: "string \<Rightarrow> string \<Rightarrow> ChatMessage" where
  "userMessage_of text stamp =
     \<lparr>role = User, content = formatPreferenceMessage text, timestamp = stamp,
      quick_reply_options = None, is_preference_question = None,
      preference_type = None, selection_type = None\<rparr>"

definition send_optimistic :: "Env \<Rightarrow> string \<Rightarrow> Session \<Rightarrow> Session" where
  "send_optimistic env text s =
     (if text \<noteq> INIT_CONVERSATION then
        (let (stamp, s1) = now env s
         in s1\<lparr>messages := messages s1 @ [userMessage_of text stamp]\<rparr>)
      else s)"

text \<open>Lines 131 to 153: a new controller, the timeout, the request.\<close>

definition send_request :: "Env \<Rightarrow> string \<Rightarrow> Session \<Rightarrow> Session" where
  "send_request env text s =
     (let s1 = s\<lparr>abortControllerRef := True\<rparr>;
          timeout = getRecommendedTimeout (networkStatus env) Api;
          s2 = emit (SetTimeout timeout) s1
      in emit (Fetch \<lparr>req_message = text, req_conversation_id = conversationId env,
                      req_preferences = preferences env\<rparr>) s2)"

text \<open>The state in which the read loop starts (lines 155 and 168).\<close>

definition stream_start :: "Session \<Rightarrow> Session" where
  "stream_start s = (emit ClearTimeout s)\<lparr>accumulatedMessage := []\<rparr>"

text \<open>The \<open>try\<close> block, lines 126 to 240.\<close>

definition send_try :: "Env \<Rightarrow> string \<Rightarrow> Session \<Rightarrow> Completion \<times> Session" where
  "send_try env text s =
     (if \<not> isOnline (networkStatus env) then (Throw (new_Error offline_message), s)
      else (let s1 = send_request env text s in
            case fetch_result env of
              FetchRejects e \<Rightarrow> (Throw e, s1)
            | FetchResolves response \<Rightarrow>
                if \<not> ok response then
                  (Throw (new_Error (''Failed to send message: '' @ string_of_nat (status response)
                                       @ '' '' @ statusText response)),
                   emit ClearTimeout s1)
                else (case body response of
                        None \<Rightarrow> (Throw (new_Error ''No response body''), emit ClearTimeout s1)
                      | Some reads \<Rightarrow> read_loop env reads (stream_start s1))))"

text \<open>The \<open>catch\<close> block, lines 241 to 255; \<open>prev.slice(0, -1)\<close> is \<open>butlast\<close>.\<close>

definition send_catch :: "Completion \<times> Session \<Rightarrow> Session" where
  "send_catch r =
     (case r of
        (Normal, s) \<Rightarrow> s
      | (Throw err, s) \<Rightarrow>
          if isAbortError err then s\<lparr>streamingMessage := None\<rparr>
          else (let s1 = emit (ConsoleError err) s;
                    errorMessage =
                      (if instanceofError err then err_message err else ''Failed to stream message'')
                in s1\<lparr>error := Some errorMessage, messages := butlast (messages s1),
                       streamingMessage := None\<rparr>))"

text \<open>The \<open>finally\<close> block, lines 256 to 259.\<close>

definition send_finally :: "Session \<Rightarrow> Session" where
  "send_finally s = s\<lparr>isStreaming := False, abortControllerRef := False\<rparr>"

definition sendMessage :: "Env \<Rightarrow> string \<Rightarrow> Session \<Rightarrow> Session" where
  "sendMessage env text s =
     send_finally (send_catch (send_try env text (send_optimistic env text (send_begin s))))"

text \<open>
  How a call ends: the \<open>try\<close> block completes, or it throws an abort error
  (CANCELLED), or it throws anything else (FAILED).
\<close>

datatype Outcome = COMPLETED | CANCELLED | FAILED

definition outcome :: "Env \<Rightarrow> string \<Rightarrow> Session \<Rightarrow> Outcome" where
  "outcome env text s =
     (case fst (send_try env text (send_optimistic env text (send_begin s))) of
        Normal \<Rightarrow> COMPLETED
      | Throw err \<Rightarrow> if isAbortError err then CANCELLED else FAILED)"

section \<open>A send that is cancelled while another send starts\<close>

text \<open>
  \<open>sendMessage\<close> above is one call with nothing else running between its steps, as when
  the timeout aborts the request. A call is also cancelled by a second call: the second
  call aborts the request (line 107) while the first is suspended at an \<open>await\<close>, and
  goes on without a pause up to its own first \<open>await\<close>; only then do the \<open>catch\<close> and
  \<open>finally\<close> blocks of the first call run.

  \<open>state_at_throw\<close> is the state in which the \<open>try\<close> block of a call stopped.
  \<open>sendMessage_interleaved\<close> is a call whose \<open>catch\<close> and \<open>finally\<close> blocks run after
  some other code \<open>between\<close> has changed the state. \<open>preempting_prefix\<close> is what a second
  call does before it first suspends: lines 105 to 139 up to the \<open>await\<close> of \<open>fetch\<close>, or
  the whole call when it throws at line 128, where nothing is awaited.
\<close>

definition state_at_throw :: "Env \<Rightarrow> string \<Rightarrow> Session \<Rightarrow> Session" where
  "state_at_throw env text s = snd (send_try env text (send_optimistic env text (send_begin s)))"

definition sendMessage_interleaved ::
    "Env \<Rightarrow> string \<Rightarrow> (Session \<Rightarrow> Session) \<Rightarrow> Session \<Rightarrow> Session" where
  "sendMessage_interleaved env text between s =
     (case send_try env text (send_optimistic env text (send_begin s)) of
        (c, s') \<Rightarrow> send_finally (send_catch (c, between s')))"

definition preempting_prefix :: "Env \<Rightarrow> string \<Rightarrow> Session \<Rightarrow> Session" where
  "preempting_prefix env text s =
     (if \<not> isOnline (networkStatus env) then sendMessage env text s
      else send_request env text (send_optimistic env text (send_begin s)))"

definition sendMessage_preempted ::
    "Env \<Rightarrow> string \<Rightarrow> Env \<Rightarrow> string \<Rightarrow> Session \<Rightarrow> Session" where
  "sendMessage_preempted env text env2 text2 s =
     sendMessage_interleaved env text (preempting_prefix env2 text2) s"

section \<open>Reading a stream as a sequence of records\<close>

text \<open>
  The lines of all fragments in arrival order, the payloads of the lines that carry the
  event prefix, and the test that a payload parses to a \<open>chunk\<close> event with a given
  \<open>content\<close>.
\<close>

definition stream_lines :: "string list \<Rightarrow> string list" where
  "stream_lines fragments = concat (map (split_chr CHR ''\<newline>'') fragments)"

definition data_payloads :: "string list \<Rightarrow> string list" where
  "data_payloads lines = map (drop 6) (filter (\<lambda>line. startsWith line ''data: '') lines)"

definition is_chunk :: "Env \<Rightarrow> string \<Rightarrow> string \<Rightarrow> bool" where
  "is_chunk env payload c =
     (case JSON_parse env payload of
        Parsed data \<Rightarrow> ev_type data = ''chunk'' \<and> ev_content data = Some c
      | _ \<Rightarrow> False)"

section \<open>Concrete scenarios\<close>

definition online_status :: NetworkStatus where
  "online_status =
     \<lparr>isOnline = True, isSlowConnection = False, connectionType = ''wifi'',
      effectiveType = ''3g''\<rparr>"

definition offline_status :: NetworkStatus where
  "offline_status =
     \<lparr>isOnline = False, isSlowConnection = False, connectionType = ''unknown'',
      effectiveType = ''unknown''\<rparr>"

definition no_preferences :: UserPreferences where
  "no_preferences =
     \<lparr>tone = None, format = None, language = None, interaction_style = None, topics = None\<rparr>"

definition chunk_event :: "string \<Rightarrow> StreamEvent" where
  "chunk_event c =
     \<lparr>ev_type = ''chunk'', ev_content = Some c, ev_message = None, ev_preferences = None,
      ev_error = None\<rparr>"

definition complete_message_event :: "WireMessage option \<Rightarrow> StreamEvent" where
  "complete_message_event m =
     \<lparr>ev_type = ''complete_message'', ev_content = None, ev_message = m,
      ev_preferences = None, ev_error = None\<rparr>"

definition error_event :: "string \<Rightarrow> StreamEvent" where
  "error_event e =
     \<lparr>ev_type = ''error'', ev_content = None, ev_message = None, ev_preferences = None,
      ev_error = Some e\<rparr>"

definition tone_question :: WireMessage where
  "tone_question =
     \<lparr>wire_content = None, wire_timestamp = None,
      wire_quick_reply_options =
        Some (Value [\<lparr>option_label = ''Formal'', option_value = ''formal''\<rparr>]),
      wire_is_preference_question = Some True,
      wire_preference_type = Some ''tone'',
      wire_selection_type = Some Single\<rparr>"

definition greeting :: WireMessage where
  "greeting =
     \<lparr>wire_content = Some ''Hello'', wire_timestamp = None,
      wire_quick_reply_options = None, wire_is_preference_question = None,
      wire_preference_type = None, wire_selection_type = None\<rparr>"

text \<open>A parser that knows six payloads and rejects every other text.\<close>

definition example_parse :: "string \<Rightarrow> ParseResult" where
  "example_parse p =
     (if p = ''{\"type\":\"chunk\",\"content\":\"a\"}'' then Parsed (chunk_event ''a'')
      else if p = ''{\"type\":\"chunk\",\"content\":\"b\"}'' then Parsed (chunk_event ''b'')
      else if p = ''{\"type\":\"complete_message\",\"message\":{\"content\":\"Hello\"}}''
        then Parsed (complete_message_event (Some greeting))
      else if p = ''{\"type\":\"error\",\"error\":\"boom\"}'' then Parsed (error_event ''boom'')
      else if p = ''null'' then ParsedNull
      else SyntaxError ''Unexpected end of JSON input'')"

definition example_env :: "NetworkStatus \<Rightarrow> FetchResult \<Rightarrow> Env" where
  "example_env ns fr =
     \<lparr>networkStatus = ns, conversationId = ''conv-1'', preferences = no_preferences,
      clock = (\<lambda>n. ''T'' @ string_of_nat n), fetch_result = fr,
      JSON_parse = example_parse,
      null_type_error = ''Cannot read properties of null''\<rparr>"

definition streaming_response :: "ReadResult list \<Rightarrow> FetchResult" where
  "streaming_response reads =
     FetchResolves \<lparr>ok = True, status = 200, statusText = ''OK'', body = Some reads\<rparr>"

definition abort_error :: Thrown where
  "abort_error = ErrorObject False ''AbortError'' ''The user aborted a request.''"

definition fresh_session :: Session where
  "fresh_session =
     \<lparr>messages = [], streamingMessage = None, isStreaming = False, error = None,
      abortControllerRef = False, accumulatedMessage = [], effects = [], clock_reads = 0\<rparr>"

definition welcome_back :: ChatMessage where
  "welcome_back =
     \<lparr>role = Assistant, content = ''Welcome back'', timestamp = ''2025-08-18T09:00:00.000Z'',
      quick_reply_options = None, is_preference_question = None, preference_type = None,
      selection_type = None\<rparr>"

definition recovered_session :: Session where
  "recovered_session = fresh_session\<lparr>messages := [welcome_back]\<rparr>"

section \<open>Structure of the two loops\<close>

text \<open>
  Handling a list of lines, or a list of reads, in two parts is handling the first part and
  then, unless it threw, the second. A body made of fragments only is handled like the list
  of all its lines.
\<close>

lemma handle_lines_append:
  "handle_lines env (xs @ ys) s =
     (case handle_lines env xs s of
        (Normal, s') \<Rightarrow> handle_lines env ys s'
      | (Throw e, s') \<Rightarrow> (Throw e, s'))"
  by (induction xs arbitrary: s) (auto split: prod.splits Completion.splits)

lemma read_loop_append:
  "read_loop env (xs @ ys) s =
     (case read_loop env xs s of
        (Normal, s') \<Rightarrow> read_loop env ys s'
      | (Throw e, s') \<Rightarrow> (Throw e, s'))"
  by (induction env xs s rule: read_loop.induct) (auto split: prod.splits Completion.splits)

lemma read_loop_values:
  "read_loop env (map ReadValue fragments) s = handle_lines env (stream_lines fragments) s"
  by (induction fragments arbitrary: s)
     (auto simp: stream_lines_def handle_lines_append split: prod.splits Completion.splits)

section \<open>What the try block can change\<close>

text \<open>
  Whatever the \<open>try\<close> block does, it leaves the \<open>error\<close> cell alone and only appends
  assistant messages to the log.
\<close>

lemma handle_data_log:
  assumes "handle_data env d s = (c, s')"
  shows "error s' = error s \<and>
         (\<exists>extra. messages s' = messages s @ extra \<and> (\<forall>m\<in>set extra. role m = Assistant))"
  using assms
  by (auto simp: handle_data_def now_def updatePreferences_def emit_def assistantMessage_of_def
        Let_def split: ParseResult.splits if_splits option.splits prod.splits)

lemma handle_line_log:
  assumes "handle_line env line s = (c, s')"
  shows "error s' = error s \<and>
         (\<exists>extra. messages s' = messages s @ extra \<and> (\<forall>m\<in>set extra. role m = Assistant))"
proof (cases "startsWith line ''data: ''")
  case False
  with assms show ?thesis by (simp add: handle_line_def)
next
  case True
  obtain c0 s0 where h: "handle_data env (JSON_parse env (drop 6 line)) s = (c0, s0)"
    by (cases "handle_data env (JSON_parse env (drop 6 line)) s")
  with assms True have "s' = s0"
    by (auto simp: handle_line_def split: Completion.splits if_splits)
  with handle_data_log [OF h] show ?thesis by simp
qed

lemma handle_lines_log:
  assumes "handle_lines env lines s = (c, s')"
  shows "error s' = error s \<and>
         (\<exists>extra. messages s' = messages s @ extra \<and> (\<forall>m\<in>set extra. role m = Assistant))"
  using assms
proof (induction lines arbitrary: s)
  case Nil
  then show ?case by simp
next
  case (Cons line lines)
  obtain c1 s1 where h: "handle_line env line s = (c1, s1)"
    by (cases "handle_line env line s")
  from handle_line_log [OF h] obtain e1 where
    e1: "error s1 = error s" "messages s1 = messages s @ e1" "\<forall>m\<in>set e1. role m = Assistant"
    by blast
  show ?case
  proof (cases c1)
    case Normal
    with Cons.prems h have "handle_lines env lines s1 = (c, s')" by simp
    from Cons.IH [OF this] obtain e2 where
      "error s' = error s1" "messages s' = messages s1 @ e2" "\<forall>m\<in>set e2. role m = Assistant"
      by blast
    with e1 have "error s' = error s" "messages s' = messages s @ (e1 @ e2)"
      "\<forall>m\<in>set (e1 @ e2). role m = Assistant" by auto
    then show ?thesis by blast
  next
    case (Throw e)
    with Cons.prems h have "s' = s1" by simp
    with e1 show ?thesis by blast
  qed
qed

lemma read_loop_log:
  assumes "read_loop env reads s = (c, s')"
  shows "error s' = error s \<and>
         (\<exists>extra. messages s' = messages s @ extra \<and> (\<forall>m\<in>set extra. role m = Assistant))"
  using assms
proof (induction env reads s rule: read_loop.induct)
  case (1 env s)
  then show ?case by simp
next
  case (2 env e reads s)
  then show ?case by simp
next
  case (3 env chunk reads s)
  obtain c1 s1 where h: "handle_lines env (split_chr CHR ''\<newline>'' chunk) s = (c1, s1)"
    by (cases "handle_lines env (split_chr CHR ''\<newline>'' chunk) s")
  from handle_lines_log [OF h] obtain e1 where
    e1: "error s1 = error s" "messages s1 = messages s @ e1" "\<forall>m\<in>set e1. role m = Assistant"
    by blast
  show ?case
  proof (cases c1)
    case Normal
    with "3.prems" h have r: "read_loop env reads s1 = (c, s')" by simp
    from "3.IH" [OF h [symmetric] Normal r] obtain e2 where
      "error s' = error s1" "messages s' = messages s1 @ e2" "\<forall>m\<in>set e2. role m = Assistant"
      by blast
    with e1 have "error s' = error s" "messages s' = messages s @ (e1 @ e2)"
      "\<forall>m\<in>set (e1 @ e2). role m = Assistant" by auto
    then show ?thesis by blast
  next
    case (Throw e)
    with "3.prems" h have "s' = s1" by simp
    with e1 show ?thesis by blast
  qed
qed

lemma send_try_log:
  assumes "send_try env text s = (c, s')"
  shows "error s' = error s \<and>
         (\<exists>extra. messages s' = messages s @ extra \<and> (\<forall>m\<in>set extra. role m = Assistant))"
proof (cases "\<exists>response reads. isOnline (networkStatus env) \<and> fetch_result env = FetchResolves response
          \<and> ok response \<and> body response = Some reads")
  case True
  then obtain response reads where
    "isOnline (networkStatus env)" "fetch_result env = FetchResolves response"
    "ok response" "body response = Some reads" by blast
  with assms have "read_loop env reads (stream_start (send_request env text s)) = (c, s')"
    by (simp add: send_try_def)
  from read_loop_log [OF this] show ?thesis
    by (simp add: stream_start_def send_request_def emit_def Let_def)
next
  case False
  with assms have "error s' = error s \<and> messages s' = messages s"
    by (auto simp: send_try_def send_request_def emit_def Let_def
          split: if_splits FetchResult.splits option.splits)
  then show ?thesis by simp
qed

section \<open>Exceptions raised while a record is handled\<close>

lemma handle_data_throws:
  assumes "handle_data env parsed s = (Throw e, s')"
  shows "instanceofError e \<and> \<not> isAbortError e \<and> s' = s"
  using assms
  by (auto simp: handle_data_def new_Error_def Let_def
        split: ParseResult.splits if_splits prod.splits)

lemma handle_line_skips_SyntaxError:
  assumes "startsWith line ''data: ''" and "JSON_parse env (drop 6 line) = SyntaxError msg"
  shows "handle_line env line s = (Normal, s)"
  using assms by (simp add: handle_line_def handle_data_def)

lemma handle_line_rethrows:
  assumes "startsWith line ''data: ''"
    and "handle_data env (JSON_parse env (drop 6 line)) s = (Throw e, s')"
    and "\<not> instanceofSyntaxError e"
  shows "handle_line env line s = (Throw e, s')"
  using assms by (simp add: handle_line_def)

section \<open>Chunk events\<close>

lemma handle_lines_chunks:
  assumes "list_all2 (is_chunk env) (data_payloads lines) cs"
    and "streamingMessage s = Some (accumulatedMessage s)"
  shows "\<exists>s'. handle_lines env lines s = (Normal, s') \<and>
              accumulatedMessage s' = accumulatedMessage s @ concat cs \<and>
              streamingMessage s' = Some (accumulatedMessage s')"
  using assms
proof (induction lines arbitrary: s cs)
  case Nil
  then show ?case by (simp add: data_payloads_def)
next
  case (Cons line lines)
  show ?case
  proof (cases "startsWith line ''data: ''")
    case False
    with Cons.prems have "list_all2 (is_chunk env) (data_payloads lines) cs"
      by (simp add: data_payloads_def)
    from Cons.IH [OF this Cons.prems(2)] False show ?thesis
      by (simp add: handle_line_def)
  next
    case True
    with Cons.prems(1) obtain c cs' where cs: "cs = c # cs'"
      and c: "is_chunk env (drop 6 line) c"
      and rest: "list_all2 (is_chunk env) (data_payloads lines) cs'"
      by (auto simp: data_payloads_def list_all2_Cons1)
    from c obtain data where d: "JSON_parse env (drop 6 line) = Parsed data"
      "ev_type data = ''chunk''" "ev_content data = Some c"
      by (auto simp: is_chunk_def split: ParseResult.splits)
    define s1 where "s1 = s\<lparr>accumulatedMessage := accumulatedMessage s @ c,
                             streamingMessage := Some (accumulatedMessage s @ c)\<rparr>"
    have step: "handle_line env line s = (Normal, s1)"
      using True d by (simp add: handle_line_def handle_data_def s1_def Let_def)
    have inv: "streamingMessage s1 = Some (accumulatedMessage s1)"
      by (simp add: s1_def)
    from Cons.IH [OF rest inv] obtain s' where
      "handle_lines env lines s1 = (Normal, s')"
      "accumulatedMessage s' = accumulatedMessage s1 @ concat cs'"
      "streamingMessage s' = Some (accumulatedMessage s')" by blast
    with step cs show ?thesis by (simp add: s1_def)
  qed
qed

section \<open>The steps around the try block\<close>

text \<open>
  On an abort error the \<open>catch\<close> and \<open>finally\<close> blocks clear the buffer and leave the
  log and the error field as they find them. The steps before the \<open>try\<close> block leave
  the error field null and add at most one entry, of role user. A second call that is
  online adds its own user entry before it suspends; one that is offline fails at once.
\<close>

lemma catch_of_abort:
  assumes "isAbortError err"
  shows "streamingMessage (send_finally (send_catch (Throw err, st))) = None \<and>
         messages (send_finally (send_catch (Throw err, st))) = messages st \<and>
         error (send_finally (send_catch (Throw err, st))) = error st"
  using assms by (simp add: send_catch_def send_finally_def)

lemma optimistic_entry:
  "\<exists>own. messages (send_optimistic env text (send_begin s)) = messages s @ own \<and>
         error (send_optimistic env text (send_begin s)) = None \<and>
         (text = INIT_CONVERSATION \<longrightarrow> own = []) \<and>
         (text \<noteq> INIT_CONVERSATION \<longrightarrow>
            (\<exists>u. own = [u] \<and> role u = User \<and> timestamp u = clock env (clock_reads s) \<and>
                 (\<not> startsWith text ''PREFERENCE_SELECTION:'' \<longrightarrow> content u = text)))"
  by (simp add: send_optimistic_def send_begin_def now_def emit_def Let_def userMessage_of_def
        formatPreferenceMessage_def)

lemma preempting_prefix_online:
  assumes "isOnline (networkStatus env)"
  shows "\<exists>own. messages (preempting_prefix env text st) = messages st @ own \<and>
           error (preempting_prefix env text st) = None \<and>
           (text = INIT_CONVERSATION \<longrightarrow> own = []) \<and>
           (text \<noteq> INIT_CONVERSATION \<longrightarrow>
              (\<exists>u. own = [u] \<and> role u = User \<and> timestamp u = clock env (clock_reads st) \<and>
                   (\<not> startsWith text ''PREFERENCE_SELECTION:'' \<longrightarrow> content u = text)))"
proof -
  have "messages (preempting_prefix env text st) = messages (send_optimistic env text (send_begin st))"
    "error (preempting_prefix env text st) = error (send_optimistic env text (send_begin st))"
    using assms by (simp_all add: preempting_prefix_def send_request_def emit_def Let_def)
  with optimistic_entry [of env "text" st] show ?thesis by simp
qed

lemma preempting_prefix_offline:
  assumes "\<not> isOnline (networkStatus env)"
  shows "error (preempting_prefix env text st) = Some offline_message"
  using assms
  by (simp add: preempting_prefix_def sendMessage_def send_finally_def send_catch_def
        send_try_def new_Error_def emit_def Let_def)

lemma sendMessage_alone:
  "sendMessage env text s = sendMessage_interleaved env text (\<lambda>st. st) s"
  by (simp add: sendMessage_def sendMessage_interleaved_def split: prod.splits)

section \<open>Properties of sendMessage, the formatter and the timeout\<close>

subsection \<open>C1: rollback after a failed send\<close>

text \<open>
  C1 says that after every failed (not cancelled) send the log is as long as before the
  call, the init message and streams that completed a message before the error included.
  The \<open>catch\<close> block removes the last entry of the log, whatever it is. Here the init
  message is sent offline on a log of one recovered message: no user message was added, and
  the recovered message is removed.
\<close>

theorem init_failure_removes_prior_message:
  "outcome (example_env offline_status (FetchRejects NonError)) INIT_CONVERSATION recovered_session
     = FAILED \<and>
   length (messages recovered_session) = 1 \<and>
   length (messages (sendMessage (example_env offline_status (FetchRejects NonError))
                       INIT_CONVERSATION recovered_session)) = 0"
  by (simp add: outcome_def sendMessage_def send_finally_def send_catch_def send_try_def
        send_optimistic_def send_begin_def example_env_def offline_status_def
        recovered_session_def fresh_session_def new_Error_def emit_def)

text \<open>
  The same \<open>catch\<close> block after a \<open>complete_message\<close> event followed by an
  \<open>error\<close> event removes the assistant message and keeps the user message.
\<close>

lemma error_after_completed_message_keeps_user_turn:
  "outcome (example_env online_status (streaming_response
       [ReadValue ''data: {\"type\":\"complete_message\",\"message\":{\"content\":\"Hello\"}}\<newline>data: {\"type\":\"error\",\"error\":\"boom\"}'']))
     ''hi'' fresh_session = FAILED \<and>
   messages (sendMessage (example_env online_status (streaming_response
       [ReadValue ''data: {\"type\":\"complete_message\",\"message\":{\"content\":\"Hello\"}}\<newline>data: {\"type\":\"error\",\"error\":\"boom\"}'']))
     ''hi'' fresh_session) = [userMessage_of ''hi'' ''T0'']"
  by code_simp

text \<open>
  What the rollback does achieve: when the failed send added a user message and the
  \<open>try\<close> block appended nothing after it, the log is the log before the call.
\<close>

lemma failed_send_restores_log_when_user_message_is_last:
  assumes failed: "outcome env text s = FAILED"
    and user: "text \<noteq> INIT_CONVERSATION"
    and last: "messages (snd (send_try env text (send_optimistic env text (send_begin s))))
                 = messages (send_optimistic env text (send_begin s))"
  shows "messages (sendMessage env text s) = messages s"
proof -
  define s1 where "s1 = send_optimistic env text (send_begin s)"
  obtain c s2 where run: "send_try env text s1 = (c, s2)"
    by (cases "send_try env text s1")
  from failed run obtain err where thrown: "c = Throw err" and other: "\<not> isAbortError err"
    by (auto simp: outcome_def s1_def split: Completion.splits if_splits)
  have "messages s1 = messages s @ [userMessage_of text (clock env (clock_reads s))]"
    using user by (simp add: s1_def send_optimistic_def send_begin_def now_def emit_def Let_def)
  moreover have "messages s2 = messages s1"
    using last run by (simp add: s1_def)
  moreover have "messages (sendMessage env text s) = butlast (messages s2)"
    using run thrown other
    by (simp add: sendMessage_def send_catch_def send_finally_def emit_def s1_def Let_def)
  ultimately show ?thesis by simp
qed

subsection \<open>C2: cancellation\<close>

text \<open>
  C2 as stated (the log after a cancelled send equals the log before it) fails when the
  request of an ordinary message is aborted: the user message added at send time stays.
\<close>

theorem cancelled_send_counterexample:
  "outcome (example_env online_status (FetchRejects abort_error)) ''hi'' fresh_session = CANCELLED \<and>
   messages (sendMessage (example_env online_status (FetchRejects abort_error)) ''hi'' fresh_session)
     \<noteq> messages fresh_session"
  by (simp add: outcome_def sendMessage_def send_finally_def send_catch_def send_try_def
        send_optimistic_def send_begin_def send_request_def example_env_def online_status_def
        fresh_session_def abort_error_def emit_def now_def Let_def INIT_CONVERSATION_def)

text \<open>
  C2, amended: a cancelled send rolls nothing back and surfaces no error. When its
  \<open>try\<close> block stops, the error field is null and the log is the log before the call,
  followed by the user entry added at send time (none for the init message; its content is
  the text sent when that has no preference prefix) and by the assistant messages completed
  before the abort. Its \<open>catch\<close> and \<open>finally\<close> blocks set the streaming buffer to
  null and leave the log and the error field as they find them, whatever ran in between.
  So when nothing ran in between (the timeout), the log after the call is that log and the
  error field is null. When a second send cancelled the call, the log after the cancelled
  call also ends with the user entry of the second send and the error field is null, if
  the second send is online; if it is offline, the error field holds the offline message
  of the second send.
\<close>

theorem cancelled_send_keeps_log_and_no_error:
  assumes "outcome env text s = CANCELLED"
  shows "\<exists>own completed.
           (text = INIT_CONVERSATION \<longrightarrow> own = []) \<and>
           (text \<noteq> INIT_CONVERSATION \<longrightarrow>
              (\<exists>u. own = [u] \<and> role u = User \<and> timestamp u = clock env (clock_reads s) \<and>
                   (\<not> startsWith text ''PREFERENCE_SELECTION:'' \<longrightarrow> content u = text))) \<and>
           (\<forall>m\<in>set completed. role m = Assistant) \<and>
           messages (state_at_throw env text s) = messages s @ own @ completed \<and>
           error (state_at_throw env text s) = None \<and>
           (\<forall>between.
              streamingMessage (sendMessage_interleaved env text between s) = None \<and>
              messages (sendMessage_interleaved env text between s)
                = messages (between (state_at_throw env text s)) \<and>
              error (sendMessage_interleaved env text between s)
                = error (between (state_at_throw env text s))) \<and>
           streamingMessage (sendMessage env text s) = None \<and>
           error (sendMessage env text s) = None \<and>
           messages (sendMessage env text s) = messages s @ own @ completed \<and>
           (\<forall>env2 text2.
              streamingMessage (sendMessage_preempted env text env2 text2 s) = None \<and>
              (\<not> isOnline (networkStatus env2) \<longrightarrow>
                 error (sendMessage_preempted env text env2 text2 s) = Some offline_message) \<and>
              (isOnline (networkStatus env2) \<longrightarrow>
                 error (sendMessage_preempted env text env2 text2 s) = None \<and>
                 (\<exists>own2.
                    messages (sendMessage_preempted env text env2 text2 s)
                      = messages s @ own @ completed @ own2 \<and>
                    (text2 = INIT_CONVERSATION \<longrightarrow> own2 = []) \<and>
                    (text2 \<noteq> INIT_CONVERSATION \<longrightarrow>
                       (\<exists>u2. own2 = [u2] \<and> role u2 = User \<and>
                             (\<not> startsWith text2 ''PREFERENCE_SELECTION:''
                                \<longrightarrow> content u2 = text2))))))"
proof -
  define s1 where "s1 = send_optimistic env text (send_begin s)"
  define s2 where "s2 = state_at_throw env text s"
  obtain c where run: "send_try env text s1 = (c, s2)"
    by (cases "send_try env text s1") (simp add: s2_def state_at_throw_def s1_def)
  from assms run obtain err where thrown: "c = Throw err" and abort: "isAbortError err"
    by (auto simp: outcome_def s1_def split: Completion.splits if_splits)
  from optimistic_entry [of env "text" s] obtain own where
    own: "messages s1 = messages s @ own" "error s1 = None"
      "text = INIT_CONVERSATION \<longrightarrow> own = []"
      "text \<noteq> INIT_CONVERSATION \<longrightarrow>
         (\<exists>u. own = [u] \<and> role u = User \<and> timestamp u = clock env (clock_reads s) \<and>
              (\<not> startsWith text ''PREFERENCE_SELECTION:'' \<longrightarrow> content u = text))"
    unfolding s1_def by blast
  from send_try_log [OF run] obtain completed where
    log: "error s2 = error s1" "messages s2 = messages s1 @ completed"
      "\<forall>m\<in>set completed. role m = Assistant" by blast
  have at_throw: "messages s2 = messages s @ own @ completed" "error s2 = None"
    using own log by simp_all
  have inter: "sendMessage_interleaved env text between s
                 = send_finally (send_catch (Throw err, between s2))" for between
    using run thrown by (simp add: sendMessage_interleaved_def s1_def)
  have general: "streamingMessage (sendMessage_interleaved env text between s) = None \<and>
                 messages (sendMessage_interleaved env text between s) = messages (between s2) \<and>
                 error (sendMessage_interleaved env text between s) = error (between s2)"
    for between
    unfolding inter using abort by (rule catch_of_abort)
  have alone: "streamingMessage (sendMessage env text s) = None"
    "error (sendMessage env text s) = None"
    "messages (sendMessage env text s) = messages s @ own @ completed"
    using general [of "\<lambda>st. st"] at_throw by (simp_all add: sendMessage_alone)
  have preempted:
    "streamingMessage (sendMessage_preempted env text env2 text2 s) = None \<and>
     (\<not> isOnline (networkStatus env2) \<longrightarrow>
        error (sendMessage_preempted env text env2 text2 s) = Some offline_message) \<and>
     (isOnline (networkStatus env2) \<longrightarrow>
        error (sendMessage_preempted env text env2 text2 s) = None \<and>
        (\<exists>own2.
           messages (sendMessage_preempted env text env2 text2 s)
             = messages s @ own @ completed @ own2 \<and>
           (text2 = INIT_CONVERSATION \<longrightarrow> own2 = []) \<and>
           (text2 \<noteq> INIT_CONVERSATION \<longrightarrow>
              (\<exists>u2. own2 = [u2] \<and> role u2 = User \<and>
                    (\<not> startsWith text2 ''PREFERENCE_SELECTION:'' \<longrightarrow> content u2 = text2)))))"
    for env2 text2
  proof (intro conjI impI)
    show "streamingMessage (sendMessage_preempted env text env2 text2 s) = None"
      using general [of "preempting_prefix env2 text2"] by (simp add: sendMessage_preempted_def)
  next
    assume "\<not> isOnline (networkStatus env2)"
    from preempting_prefix_offline [OF this, of text2 s2]
    show "error (sendMessage_preempted env text env2 text2 s) = Some offline_message"
      using general [of "preempting_prefix env2 text2"] by (simp add: sendMessage_preempted_def)
  next
    assume on: "isOnline (networkStatus env2)"
    from preempting_prefix_online [OF on, of text2 s2]
    show "error (sendMessage_preempted env text env2 text2 s) = None"
      using general [of "preempting_prefix env2 text2"] by (auto simp: sendMessage_preempted_def)
  next
    assume on: "isOnline (networkStatus env2)"
    from preempting_prefix_online [OF on, of text2 s2] obtain own2 where
      "messages (preempting_prefix env2 text2 s2) = messages s2 @ own2"
      "text2 = INIT_CONVERSATION \<longrightarrow> own2 = []"
      "text2 \<noteq> INIT_CONVERSATION \<longrightarrow>
         (\<exists>u2. own2 = [u2] \<and> role u2 = User \<and>
               (\<not> startsWith text2 ''PREFERENCE_SELECTION:'' \<longrightarrow> content u2 = text2))"
      by blast
    with general [of "preempting_prefix env2 text2"] at_throw
    show "\<exists>own2.
           messages (sendMessage_preempted env text env2 text2 s)
             = messages s @ own @ completed @ own2 \<and>
           (text2 = INIT_CONVERSATION \<longrightarrow> own2 = []) \<and>
           (text2 \<noteq> INIT_CONVERSATION \<longrightarrow>
              (\<exists>u2. own2 = [u2] \<and> role u2 = User \<and>
                    (\<not> startsWith text2 ''PREFERENCE_SELECTION:'' \<longrightarrow> content u2 = text2)))"
      by (intro exI [of _ own2]) (simp add: sendMessage_preempted_def)
  qed
  show ?thesis
    using own(3,4) log(3) at_throw general alone preempted
    unfolding s2_def by blast
qed

theorem cancelled_send_keeps_log_and_no_error_witness:
  "outcome (example_env online_status (FetchRejects abort_error)) ''hi'' fresh_session = CANCELLED \<and>
   streamingMessage
     (sendMessage (example_env online_status (FetchRejects abort_error)) ''hi'' fresh_session) = None \<and>
   error (sendMessage (example_env online_status (FetchRejects abort_error)) ''hi'' fresh_session)
     = None \<and>
   map role (messages
     (sendMessage (example_env online_status (FetchRejects abort_error)) ''hi'' fresh_session))
     = [User] \<and>
   isOnline (networkStatus (example_env online_status (streaming_response []))) \<and>
   error (sendMessage_preempted (example_env online_status (FetchRejects abort_error)) ''hi''
            (example_env online_status (streaming_response [])) ''again'' fresh_session) = None \<and>
   map role (messages
     (sendMessage_preempted (example_env online_status (FetchRejects abort_error)) ''hi''
        (example_env online_status (streaming_response [])) ''again'' fresh_session))
     = [User, User]"
proof -
  let ?env = "example_env online_status (FetchRejects abort_error)"
  let ?env2 = "example_env online_status (streaming_response [])"
  have h: "outcome ?env ''hi'' fresh_session = CANCELLED"
    by (simp add: outcome_def send_try_def send_optimistic_def send_begin_def send_request_def
          example_env_def online_status_def fresh_session_def abort_error_def emit_def now_def
          Let_def INIT_CONVERSATION_def)
  have on: "isOnline (networkStatus ?env2)"
    by (simp add: example_env_def online_status_def)
  have alone: "map role (messages (sendMessage ?env ''hi'' fresh_session)) = [User]"
    by code_simp
  have both: "map role (messages (sendMessage_preempted ?env ''hi'' ?env2 ''again'' fresh_session))
                = [User, User]"
    by code_simp
  from cancelled_send_keeps_log_and_no_error [OF h] on
  have "streamingMessage (sendMessage ?env ''hi'' fresh_session) = None \<and>
        error (sendMessage ?env ''hi'' fresh_session) = None \<and>
        error (sendMessage_preempted ?env ''hi'' ?env2 ''again'' fresh_session) = None"
    by blast
  with h on alone both show ?thesis by simp
qed

subsection \<open>C3: the formatter on a topics selection\<close>

text \<open>
  C3 expects \<open>News Topic Interest: Technology, Sports\<close> for the input
  \<open>PREFERENCE_SELECTION:topics:technology,sports\<close>. The lookup table has the key
  \<open>news_topics\<close> and no key \<open>topics\<close>, so the type falls back to title case.
\<close>

theorem formatter_topics_falls_back:
  "formatPreferenceMessage ''PREFERENCE_SELECTION:topics:technology,sports''
     = ''Topics: Technology, Sports''"
  by code_simp

text \<open>
  The table entry is reached by the key it is stored under.
\<close>

lemma formatter_news_topics:
  "formatPreferenceMessage ''PREFERENCE_SELECTION:news_topics:technology,sports''
     = ''News Topic Interest: Technology, Sports''"
  by code_simp

subsection \<open>C4: sending while offline\<close>

text \<open>
  C4: a send made while the connectivity signal reports offline fails, sets the error field
  to the fixed offline message, and adds no fetch to the effects: no request is issued.
\<close>

theorem offline_send_fails_before_fetch:
  assumes "\<not> isOnline (networkStatus env)"
  shows "outcome env text s = FAILED \<and>
         error (sendMessage env text s) = Some offline_message \<and>
         filter isFetch (effects (sendMessage env text s)) = filter isFetch (effects s) \<and>
         offline_message = ''You're offline. Please check your connection and try again.''"
  using assms
  by (simp add: outcome_def sendMessage_def send_finally_def send_catch_def send_try_def
        send_optimistic_def send_begin_def new_Error_def emit_def now_def Let_def
        offline_message_def split: prod.splits)

theorem offline_send_fails_before_fetch_witness:
  "\<not> isOnline (networkStatus (example_env offline_status (streaming_response []))) \<and>
   error (sendMessage (example_env offline_status (streaming_response [])) ''hi'' fresh_session)
     = Some ''You're offline. Please check your connection and try again.'' \<and>
   filter isFetch
     (effects (sendMessage (example_env offline_status (streaming_response [])) ''hi'' fresh_session))
     = []"
proof -
  have h: "\<not> isOnline (networkStatus (example_env offline_status (streaming_response [])))"
    by (simp add: example_env_def offline_status_def)
  from offline_send_fails_before_fetch [OF h, of "''hi''" fresh_session] h
  show ?thesis by (simp add: fresh_session_def)
qed

subsection \<open>C5: chunks accumulate in arrival order\<close>

text \<open>
  C5: when every record of a stream is a \<open>chunk\<close> event, the streaming buffer after the
  call is the concatenation of the \<open>content\<close> fields in arrival order, however the
  records are spread over the reads. The witness is the stream of the two records with
  contents a and b, which gives the buffer ab.
\<close>

theorem chunk_contents_concatenate:
  assumes online: "isOnline (networkStatus env)"
    and fetch: "fetch_result env = FetchResolves response"
    and ok: "ok response"
    and body: "body response = Some (map ReadValue fragments)"
    and chunks: "list_all2 (is_chunk env) (data_payloads (stream_lines fragments)) cs"
  shows "streamingMessage (sendMessage env text s) = Some (concat cs)"
proof -
  define s0 where "s0 = stream_start (send_request env text (send_optimistic env text (send_begin s)))"
  have start: "accumulatedMessage s0 = []" "streamingMessage s0 = Some []"
    by (simp_all add: s0_def stream_start_def send_request_def send_optimistic_def send_begin_def
          emit_def now_def Let_def split: prod.splits)
  then have "streamingMessage s0 = Some (accumulatedMessage s0)" by simp
  from handle_lines_chunks [OF chunks this] start obtain s' where
    run: "handle_lines env (stream_lines fragments) s0 = (Normal, s')"
    and buf: "streamingMessage s' = Some (concat cs)" by auto
  have "send_try env text (send_optimistic env text (send_begin s)) = (Normal, s')"
    using online fetch ok body run by (simp add: send_try_def read_loop_values s0_def)
  then show ?thesis
    using buf by (simp add: sendMessage_def send_catch_def send_finally_def)
qed

theorem chunk_contents_concatenate_witness:
  "streamingMessage
     (sendMessage
        (example_env online_status
           (streaming_response
              [ReadValue ''data: {\"type\":\"chunk\",\"content\":\"a\"}\<newline>'',
               ReadValue ''data: {\"type\":\"chunk\",\"content\":\"b\"}\<newline>'']))
        ''hi'' fresh_session) = Some ''ab''"
proof -
  let ?fragments = "[''data: {\"type\":\"chunk\",\"content\":\"a\"}\<newline>'',
                     ''data: {\"type\":\"chunk\",\"content\":\"b\"}\<newline>'']"
  let ?response = "\<lparr>ok = True, status = 200, statusText = ''OK'',
                     body = Some (map ReadValue ?fragments)\<rparr>"
  let ?env = "example_env online_status (FetchResolves ?response)"
  have h1: "isOnline (networkStatus ?env)"
    by (simp add: example_env_def online_status_def)
  have h2: "fetch_result ?env = FetchResolves ?response"
    by (simp add: example_env_def)
  have h3: "ok ?response" by simp
  have h4: "body ?response = Some (map ReadValue ?fragments)" by simp
  have h5: "list_all2 (is_chunk ?env) (data_payloads (stream_lines ?fragments)) [''a'', ''b'']"
    by (simp add: stream_lines_def data_payloads_def startsWith_def is_chunk_def example_env_def
          example_parse_def chunk_event_def)
  from chunk_contents_concatenate [OF h1 h2 h3 h4 h5, of "''hi''" fresh_session]
  show ?thesis by (simp add: streaming_response_def)
qed

subsection \<open>C6: isStreaming is reset on every exit\<close>

text \<open>
  C6: whatever the outside world answers (completion, abort, failure, any thrown value),
  \<open>isStreaming\<close> is false when the call has finished. A stream is a finite list of
  reads, so every call finishes.
\<close>

theorem isStreaming_reset_on_every_exit: "\<not> isStreaming (sendMessage env text s)"
  by (simp add: sendMessage_def send_finally_def)

subsection \<open>C7: malformed records are skipped, other exceptions fail the call\<close>

text \<open>
  C7: a line with the event prefix whose payload makes \<open>JSON.parse\<close> throw a
  \<open>SyntaxError\<close> is skipped: the lines around it are handled as if it were not there.
  When handling the record at a line throws anything that is not an instance of
  \<open>SyntaxError\<close> (the \<open>Error\<close> of an \<open>error\<close> event, the \<open>TypeError\<close> on a
  \<open>null\<close> payload), the call ends FAILED: the error field holds the message of the
  thrown error, the buffer is null and the last entry of the log is removed.
\<close>

theorem malformed_record_skipped_other_exceptions_fail:
  assumes line: "startsWith line ''data: ''"
  shows "(JSON_parse env (drop 6 line) = SyntaxError msg \<longrightarrow>
            handle_lines env (before @ line # rest) s = handle_lines env (before @ rest) s) \<and>
         (isOnline (networkStatus env) \<and> fetch_result env = FetchResolves response \<and>
          ok response \<and> body response = Some (earlier @ ReadValue chunk # later) \<and>
          read_loop env earlier
            (stream_start (send_request env input (send_optimistic env input (send_begin s_init))))
            = (Normal, s_read) \<and>
          split_chr CHR ''\<newline>'' chunk = before @ line # rest \<and>
          handle_lines env before s_read = (Normal, s_line) \<and>
          handle_data env (JSON_parse env (drop 6 line)) s_line = (Throw e, s_throw) \<and>
          \<not> instanceofSyntaxError e
          \<longrightarrow> outcome env input s_init = FAILED \<and>
              error (sendMessage env input s_init) = Some (err_message e) \<and>
              streamingMessage (sendMessage env input s_init) = None \<and>
              messages (sendMessage env input s_init) = butlast (messages s_throw))"
proof (rule conjI; rule impI)
  assume "JSON_parse env (drop 6 line) = SyntaxError msg"
  with line have "\<And>t. handle_line env line t = (Normal, t)"
    by (rule handle_line_skips_SyntaxError)
  then show "handle_lines env (before @ line # rest) s = handle_lines env (before @ rest) s"
    by (simp add: handle_lines_append split: prod.splits Completion.splits)
next
  assume h: "isOnline (networkStatus env) \<and> fetch_result env = FetchResolves response \<and>
          ok response \<and> body response = Some (earlier @ ReadValue chunk # later) \<and>
          read_loop env earlier
            (stream_start (send_request env input (send_optimistic env input (send_begin s_init))))
            = (Normal, s_read) \<and>
          split_chr CHR ''\<newline>'' chunk = before @ line # rest \<and>
          handle_lines env before s_read = (Normal, s_line) \<and>
          handle_data env (JSON_parse env (drop 6 line)) s_line = (Throw e, s_throw) \<and>
          \<not> instanceofSyntaxError e"
  from h have thrown: "handle_data env (JSON_parse env (drop 6 line)) s_line = (Throw e, s_throw)"
    and other: "\<not> instanceofSyntaxError e" by simp_all
  from handle_data_throws [OF thrown] have kind: "instanceofError e" "\<not> isAbortError e"
    by simp_all
  have "handle_line env line s_line = (Throw e, s_throw)"
    using line thrown other by (rule handle_line_rethrows)
  with h have "handle_lines env (before @ line # rest) s_read = (Throw e, s_throw)"
    by (simp add: handle_lines_append)
  with h have "read_loop env (ReadValue chunk # later) s_read = (Throw e, s_throw)"
    by simp
  with h have "read_loop env (earlier @ ReadValue chunk # later)
                 (stream_start (send_request env input (send_optimistic env input (send_begin s_init))))
               = (Throw e, s_throw)"
    by (simp add: read_loop_append)
  with h have run: "send_try env input (send_optimistic env input (send_begin s_init)) = (Throw e, s_throw)"
    by (simp add: send_try_def)
  show "outcome env input s_init = FAILED \<and>
        error (sendMessage env input s_init) = Some (err_message e) \<and>
        streamingMessage (sendMessage env input s_init) = None \<and>
        messages (sendMessage env input s_init) = butlast (messages s_throw)"
    using run kind
    by (simp add: outcome_def sendMessage_def send_catch_def send_finally_def emit_def Let_def)
qed

theorem malformed_record_skipped_other_exceptions_fail_witness:
  "handle_lines (example_env online_status (streaming_response []))
     [''data: {\"type\":\"chu'', ''data: {\"type\":\"chunk\",\"content\":\"b\"}''] fresh_session
   = handle_lines (example_env online_status (streaming_response []))
       [''data: {\"type\":\"chunk\",\"content\":\"b\"}''] fresh_session \<and>
   outcome
     (example_env online_status (streaming_response
        [ReadValue ''data: {\"type\":\"complete_message\",\"message\":{\"content\":\"Hello\"}}\<newline>data: {\"type\":\"error\",\"error\":\"boom\"}'']))
     ''hi'' fresh_session = FAILED \<and>
   error
     (sendMessage
        (example_env online_status (streaming_response
           [ReadValue ''data: {\"type\":\"complete_message\",\"message\":{\"content\":\"Hello\"}}\<newline>data: {\"type\":\"error\",\"error\":\"boom\"}'']))
        ''hi'' fresh_session) = Some ''boom''"
proof -
  let ?env1 = "example_env online_status (streaming_response [])"
  let ?partial = "''data: {\"type\":\"chu''"
  let ?line_b = "''data: {\"type\":\"chunk\",\"content\":\"b\"}''"
  have l1: "startsWith ?partial ''data: ''" by (simp add: startsWith_def)
  have p1: "JSON_parse ?env1 (drop 6 ?partial) = SyntaxError ''Unexpected end of JSON input''"
    by (simp add: example_env_def example_parse_def)
  have skip: "handle_lines ?env1 ([] @ ?partial # [?line_b]) fresh_session
                = handle_lines ?env1 ([] @ [?line_b]) fresh_session"
    using malformed_record_skipped_other_exceptions_fail
            [OF l1, where env = ?env1 and msg = "''Unexpected end of JSON input''"
               and before = "[]" and rest = "[?line_b]" and s = fresh_session] p1
    by blast
  let ?line_cm = "''data: {\"type\":\"complete_message\",\"message\":{\"content\":\"Hello\"}}''"
  let ?line_err = "''data: {\"type\":\"error\",\"error\":\"boom\"}''"
  let ?chunk = "''data: {\"type\":\"complete_message\",\"message\":{\"content\":\"Hello\"}}\<newline>data: {\"type\":\"error\",\"error\":\"boom\"}''"
  let ?response = "\<lparr>ok = True, status = 200, statusText = ''OK'', body = Some [ReadValue ?chunk]\<rparr>"
  let ?env2 = "example_env online_status (streaming_response [ReadValue ?chunk])"
  define s1 where "s1 = stream_start (send_request ?env2 ''hi''
                          (send_optimistic ?env2 ''hi'' (send_begin fresh_session)))"
  define s2 where "s2 = snd (handle_lines ?env2 [?line_cm] s1)"
  have l2: "startsWith ?line_err ''data: ''" by (simp add: startsWith_def)
  have a1: "isOnline (networkStatus ?env2)" by (simp add: example_env_def online_status_def)
  have a2: "fetch_result ?env2 = FetchResolves ?response"
    by (simp add: example_env_def streaming_response_def)
  have a3: "ok ?response" by simp
  have a4: "body ?response = Some ([] @ ReadValue ?chunk # [])" by simp
  have a5: "read_loop ?env2 []
              (stream_start (send_request ?env2 ''hi''
                 (send_optimistic ?env2 ''hi'' (send_begin fresh_session)))) = (Normal, s1)"
    by (simp add: s1_def)
  have a6: "split_chr CHR ''\<newline>'' ?chunk = [?line_cm] @ ?line_err # []" by simp
  have "fst (handle_lines ?env2 [?line_cm] s1) = Normal"
    by (simp add: handle_line_def handle_data_def startsWith_def example_env_def
          example_parse_def complete_message_event_def greeting_def updatePreferences_def
          assistantMessage_of_def now_def Let_def)
  then have a7: "handle_lines ?env2 [?line_cm] s1 = (Normal, s2)"
    by (simp add: s2_def prod_eq_iff)
  have a8: "handle_data ?env2 (JSON_parse ?env2 (drop 6 ?line_err)) s2
              = (Throw (new_Error ''boom''), s2)"
    by (simp add: handle_data_def example_env_def example_parse_def error_event_def)
  have a9: "\<not> instanceofSyntaxError (new_Error ''boom'')" by (simp add: new_Error_def)
  have "outcome ?env2 ''hi'' fresh_session = FAILED \<and>
        error (sendMessage ?env2 ''hi'' fresh_session) = Some (err_message (new_Error ''boom''))"
    using malformed_record_skipped_other_exceptions_fail
            [OF l2, where env = ?env2 and response = ?response and earlier = "[]"
               and chunk = ?chunk and later = "[]" and input = "''hi''" and s_init = fresh_session
               and s_read = s1 and before = "[?line_cm]" and rest = "[]" and s_line = s2
               and e = "new_Error ''boom''" and s_throw = s2]
          a1 a2 a3 a4 a5 a6 a7 a8 a9
    by blast
  with skip show ?thesis by (simp add: new_Error_def)
qed

subsection \<open>C8: the recommended timeout\<close>

text \<open>
  C8: the recommended timeout is 0 when offline; when online it is the base timeout of the
  operation times a factor between 1 and 3, for every \<open>effectiveType\<close> and
  \<open>isSlowConnection\<close>; the base timeout of the api operation is 30000.
\<close>

theorem getRecommendedTimeout_scaled:
  "(\<not> isOnline ns \<longrightarrow> getRecommendedTimeout ns operation = 0) \<and>
   (isOnline ns \<longrightarrow>
      (\<exists>k. 1 \<le> k \<and> k \<le> 3 \<and> getRecommendedTimeout ns operation = baseTimeouts operation * k)) \<and>
   baseTimeouts Api = 30000"
proof -
  have "\<exists>k. 1 \<le> k \<and> k \<le> 3 \<and> getRecommendedTimeout ns operation = baseTimeouts operation * k"
    if on: "isOnline ns"
  proof -
    have "getRecommendedTimeout ns operation \<in> (\<lambda>k. baseTimeouts operation * k) ` {1, 3/2, 2, 3}"
      using on by (simp add: getRecommendedTimeout_def Let_def)
    then obtain k where "k \<in> {1, 3/2, 2, 3::real}"
      "getRecommendedTimeout ns operation = baseTimeouts operation * k" by blast
    then show ?thesis by (intro exI [of _ k]) auto
  qed
  then show ?thesis by (simp add: getRecommendedTimeout_def)
qed

theorem getRecommendedTimeout_scaled_witness:
  "\<not> isOnline offline_status \<and> getRecommendedTimeout offline_status Api = 0 \<and>
   isOnline online_status \<and>
   (\<exists>k. 1 \<le> k \<and> k \<le> 3 \<and> getRecommendedTimeout online_status Api = 30000 * k)"
  using getRecommendedTimeout_scaled [of offline_status Api]
    getRecommendedTimeout_scaled [of online_status Api]
  by (simp add: offline_status_def online_status_def)

subsection \<open>C9: a complete_message event with missing fields\<close>

text \<open>
  C9 as stated gives a message that lacks \<open>content\<close> or \<open>timestamp\<close> the same result
  as an absent message, quick-reply fields absent included. A message without
  \<open>content\<close> and \<open>timestamp\<close> that carries quick-reply options keeps them.
\<close>

theorem complete_message_counterexample:
  "ev_type (complete_message_event (Some tone_question)) = ''complete_message'' \<and>
   wire_content tone_question = None \<and> wire_timestamp tone_question = None \<and>
   quick_reply_options
     (last (messages (snd (handle_data (example_env online_status (streaming_response []))
                             (Parsed (complete_message_event (Some tone_question)))
                             fresh_session)))) \<noteq> None"
  by (simp add: complete_message_event_def tone_question_def handle_data_def now_def
        assistantMessage_of_def updatePreferences_def fresh_session_def Let_def)

text \<open>
  C9, amended: a \<open>complete_message\<close> event never fails and appends one assistant
  message. Its content is the content of the event's message, or the empty string when that
  is missing; its timestamp is the message's, or a fresh one when that is missing; its
  quick-reply fields are those of the event's message. When the event has no message, the
  content is empty, the timestamp is fresh and the quick-reply fields are absent.
\<close>

theorem complete_message_defaults:
  assumes "ev_type data = ''complete_message''"
  shows "\<exists>m s'. handle_data env (Parsed data) s = (Normal, s') \<and>
           messages s' = messages s @ [m] \<and> role m = Assistant \<and>
           content m = (case Option.bind (ev_message data) wire_content of
                          Some c \<Rightarrow> c | None \<Rightarrow> []) \<and>
           timestamp m = (case Option.bind (ev_message data) wire_timestamp of
                            Some t \<Rightarrow> t | None \<Rightarrow> clock env (clock_reads s)) \<and>
           quick_reply_options m = Option.bind (ev_message data) wire_quick_reply_options \<and>
           is_preference_question m = Option.bind (ev_message data) wire_is_preference_question \<and>
           preference_type m = Option.bind (ev_message data) wire_preference_type \<and>
           selection_type m = Option.bind (ev_message data) wire_selection_type \<and>
           (ev_message data = None \<longrightarrow>
              content m = [] \<and> timestamp m = clock env (clock_reads s) \<and>
              quick_reply_options m = None \<and> is_preference_question m = None \<and>
              preference_type m = None \<and> selection_type m = None)"
  using assms
  by (auto simp: handle_data_def now_def assistantMessage_of_def updatePreferences_def emit_def
        Let_def split: option.splits prod.splits)

theorem complete_message_defaults_witness:
  "ev_type (complete_message_event None) = ''complete_message'' \<and>
   ev_message (complete_message_event None) = None \<and>
   (\<exists>m s'. handle_data (example_env online_status (streaming_response []))
              (Parsed (complete_message_event None)) fresh_session = (Normal, s') \<and>
           messages s' = [m] \<and> role m = Assistant \<and> content m = [] \<and>
           timestamp m = clock (example_env online_status (streaming_response [])) 0 \<and>
           quick_reply_options m = None)"
proof -
  have h: "ev_type (complete_message_event None) = ''complete_message''"
    by (simp add: complete_message_event_def)
  have n: "ev_message (complete_message_event None) = None"
    by (simp add: complete_message_event_def)
  from complete_message_defaults [OF h, of "example_env online_status (streaming_response [])"
      fresh_session] n
  show ?thesis by (auto simp: h fresh_session_def)
qed

subsection \<open>C10: a send starts by clearing the error\<close>

text \<open>
  C10: \<open>sendMessage\<close> runs \<open>send_begin\<close> first, before the user message is added
  and before the \<open>try\<close> block. For every prior state, \<open>send_begin\<close> leaves the error
  field null and the streaming buffer empty, keeps the log and issues no request; the error
  field is still null when the \<open>try\<close> block starts.
\<close>

theorem send_begins_by_clearing_error:
  "sendMessage env text s =
     send_finally (send_catch (send_try env text (send_optimistic env text (send_begin s)))) \<and>
   error (send_begin s) = None \<and>
   streamingMessage (send_begin s) = Some [] \<and>
   messages (send_begin s) = messages s \<and>
   filter isFetch (effects (send_begin s)) = filter isFetch (effects s) \<and>
   error (send_optimistic env text (send_begin s)) = None"
  by (simp add: sendMessage_def send_begin_def send_optimistic_def emit_def now_def Let_def)

end
